theory Spec2Isabelle
  imports Complex_Main
begin

section \<open>Values\<close>

text \<open>
  The script computes with JavaScript numbers.  Pointer coordinates, clock readings
  (\<open>performance.now()\<close>, in milliseconds) and shader tunables are finite numbers and are
  modelled by \<^typ>\<open>real\<close>: subtraction, division and comparison are the mathematical ones,
  which is what the IEEE operations of the script compute whenever the exact result is
  representable.  Only \<open>parseInt\<close> can produce \<open>NaN\<close>, so its results and what is computed
  from them have the type \<open>number\<close>.  Viewport sizes (\<open>window.innerWidth\<close>,
  \<open>window.innerHeight\<close>) and the frame counter are natural numbers; the counter is
  incremented exactly as long as it stays below \<open>2 ^ 53\<close>.

  A string is a list of code units; \<^typ>\<open>char\<close> covers the code units below 256.
\<close>

datatype number = Num real | NaN

fun number_div :: "number \<Rightarrow> real \<Rightarrow> number" where
  "number_div (Num v) d = Num (v / d)"
| "number_div NaN d = NaN"

type_synonym size = "nat \<times> nat"
type_synonym vec4 = "real \<times> real \<times> real \<times> real"

subsection \<open>String primitives of the language\<close>

text \<open>\<open>s.slice(a, b)\<close> for \<open>0 \<le> a \<le> b\<close>: the code units from index \<open>a\<close> up to, not
  including, index \<open>b\<close>, both clamped to the length of \<open>s\<close>.\<close>

definition slice :: "nat \<Rightarrow> nat \<Rightarrow> string \<Rightarrow> string" where
  "slice a b s = take (b - a) (drop a s)"

text \<open>The white space \<open>parseInt\<close> skips (tab, line feed, vertical tab, form feed,
  carriage return, space, no-break space), among the code units below 256.\<close>

definition isWhiteSpace :: "char \<Rightarrow> bool" where
  "isWhiteSpace c = (of_char c \<in> {9, 10, 11, 12, 13, 32, 160 :: nat})"

text \<open>The value of a character as a digit: \<open>0\<close>--\<open>9\<close>, then \<open>a\<close>--\<open>z\<close> or \<open>A\<close>--\<open>Z\<close>
  for 10--35.\<close>

definition digitValue :: "char \<Rightarrow> nat option" where
  "digitValue c =
     (let n = (of_char c :: nat) in
      if 48 \<le> n \<and> n \<le> 57 then Some (n - 48)
      else if 97 \<le> n \<and> n \<le> 122 then Some (n - 87)
      else if 65 \<le> n \<and> n \<le> 90 then Some (n - 55)
      else None)"

definition isRadixDigit :: "nat \<Rightarrow> char \<Rightarrow> bool" where
  "isRadixDigit r c = (case digitValue c of None \<Rightarrow> False | Some v \<Rightarrow> v < r)"

fun digitsValue :: "nat \<Rightarrow> nat \<Rightarrow> string \<Rightarrow> nat" where
  "digitsValue r acc [] = acc"
| "digitsValue r acc (c # cs) = digitsValue r (acc * r + (case digitValue c of Some v \<Rightarrow> v | None \<Rightarrow> 0)) cs"

text \<open>
  \<open>parseInt(s, 16)\<close>: skip leading white space, read an optional sign, strip an
  optional \<open>0x\<close> or \<open>0X\<close>, take the longest prefix of hexadecimal digits; no digit
  gives \<open>NaN\<close>, otherwise the signed value of the digits (exact for the strings of at
  most two characters that \<open>hexToRgb\<close> passes).
\<close>

definition parseInt16 :: "string \<Rightarrow> number" where
  "parseInt16 s =
     (let s1 = dropWhile isWhiteSpace s;
          sign = (if s1 \<noteq> [] \<and> hd s1 = CHR ''-'' then - 1 else 1 :: real);
          s2 = (if s1 \<noteq> [] \<and> (hd s1 = CHR ''+'' \<or> hd s1 = CHR ''-'') then tl s1 else s1);
          s3 = (if take 2 s2 = ''0x'' \<or> take 2 s2 = ''0X'' then drop 2 s2 else s2);
          z = takeWhile (isRadixDigit 16) s3
      in if z = [] then NaN else Num (sign * real (digitsValue 16 0 z)))"

section \<open>Colour utility\<close>

text \<open>\<open>FluidGradient.hexToRgb\<close>: three two-character slices of the string, each parsed
  in base 16 and divided by 255.\<close>

definition hexToRgb :: "string \<Rightarrow> number list" where
  "hexToRgb hex =
     (let r = number_div (parseInt16 (slice 1 3 hex)) 255;
          g = number_div (parseInt16 (slice 3 5 hex)) 255;
          b = number_div (parseInt16 (slice 5 7 hex)) 255
      in [r, g, b])"

text \<open>The reading of a colour string \<open>#RRGGBB\<close> that the specification refers to: the
  hexadecimal digits and the value of a two-digit component.\<close>

definition isHexDigit :: "char \<Rightarrow> bool" where
  "isHexDigit c = (c \<in> set ''0123456789abcdefABCDEF'')"

definition hexDigitValue :: "char \<Rightarrow> nat" where
  "hexDigitValue c =
     (case map_of (zip ''0123456789abcdefABCDEF''
         [0, 1, 2, 3, 4, 5, 6, 7, 8, 9, 10, 11, 12, 13, 14, 15, 10, 11, 12, 13, 14, 15]) c of
        Some v \<Rightarrow> v | None \<Rightarrow> 0)"

definition componentValue :: "char \<Rightarrow> char \<Rightarrow> nat" where
  "componentValue hi lo = 16 * hexDigitValue hi + hexDigitValue lo"

section \<open>The page: browser, component and GPU pipeline\<close>

text \<open>The two off-screen render targets are told apart by which field of the component
  first held them; a texture is identified with the render target that owns it
  (\<open>target.texture\<close>).\<close>

datatype target_ref = FluidTarget1 | FluidTarget2

datatype plane = FluidPlane | DisplayPlane

datatype event_name = Mousemove | Mouseleave | Resize

text \<open>Calls of the global animation library made outside a timeline: \<open>gsap.set\<close> of a
  scale on a selector, and \<open>gsap.to\<close> on the \<open>i\<close>-th matched element with a scale and a
  delay (\<open>None\<close> where the script reads past the end of its table of delays).\<close>

datatype gsap_call = GsapSet string real | GsapTo nat real "real option"

text \<open>
  A draw call submitted by \<open>renderer.render(plane, camera)\<close>, recorded with what the
  shader of the plane's material receives at that moment: the bound render target
  (\<open>None\<close> is the screen) and the uniforms, a texture uniform together with the
  dimensions its render target has then.  For the simulation pass these are \<open>iTime\<close>,
  \<open>iResolution\<close>, \<open>iMouse\<close>, \<open>iFrame\<close> and \<open>iPreviousFrame\<close>; for the display pass
  \<open>iTime\<close>, \<open>iResolution\<close> and \<open>iFluid\<close>.  The scalar tunables and colours are set
  once by \<open>setupMaterials\<close> and are not repeated in the record.
\<close>

datatype draw =
    FluidDraw "(target_ref \<times> size) option" real size vec4 nat "(target_ref \<times> size) option"
  | DisplayDraw "(target_ref \<times> size) option" real size "(target_ref \<times> size) option"

record browser =
  innerWidth :: nat
  innerHeight :: nat
  gradientCanvas :: "nat option"
  listeners :: "event_name list"
  rafPending :: nat
  draws :: "draw list"
  console :: "string list"
  revealerSvgs :: nat
  gsapCalls :: "gsap_call list"

text \<open>
  In \<open>browser\<close>, \<open>gradientCanvas\<close> is the result of
  \<open>document.querySelector(".gradient-canvas")\<close>: \<open>None\<close> for \<open>null\<close>, otherwise the
  element with the number of children appended to it.  \<open>listeners\<close> are the events for
  which the script has registered a handler, \<open>rafPending\<close> the animation-frame callbacks
  requested and not yet run, \<open>draws\<close> the draw calls submitted so far, \<open>console\<close> the
  messages logged, \<open>revealerSvgs\<close> the number of elements matching \<open>.revealer svg\<close> and
  \<open>gsapCalls\<close> the calls of the animation library made so far.
\<close>

record config =
  brushSize :: real
  brushStrength :: real
  distortionAmount :: real
  fluidDecay :: real
  trailLength :: real
  stopDecay :: real
  color1 :: string
  color2 :: string
  color3 :: string
  color4 :: string
  colorIntensity :: real
  softness :: real

text \<open>The fields of a \<open>FluidGradient\<close> that its constructor assigns.\<close>

record fluid_gradient =
  config :: config
  mouseX :: real
  mouseY :: real
  prevMouseX :: real
  prevMouseY :: real
  lastMoveTime :: real
  frameCount :: nat
  isInitialized :: bool

record uniforms =
  iTime :: real
  iResolution :: size

record fluid_uniforms = uniforms +
  iMouse :: vec4
  iFrame :: nat
  iPreviousFrame :: "target_ref option"
  uBrushSize :: real
  uBrushStrength :: real
  uFluidDecay :: real
  uTrailLength :: real
  uStopDecay :: real

record display_uniforms = uniforms +
  iFluid :: "target_ref option"
  uDistortionAmount :: real
  uColor1 :: "number list"
  uColor2 :: "number list"
  uColor3 :: "number list"
  uColor4 :: "number list"
  uColorIntensity :: real
  uSoftness :: real

text \<open>
  What \<open>init\<close> creates and assigns to further fields of the component, which are
  undefined until then: the renderer (its output size and the render target bound by
  \<open>setRenderTarget\<close>, \<open>None\<close> for the screen), the two render targets with their
  dimensions, the references \<open>currentFluidTarget\<close> and \<open>previousFluidTarget\<close>, and the
  uniforms of the two shader materials.
\<close>

record pipeline =
  rendererSize :: size
  renderTarget :: "target_ref option"
  fluidTarget1 :: size
  fluidTarget2 :: size
  currentFluidTarget :: target_ref
  previousFluidTarget :: target_ref
  fluidMaterial :: fluid_uniforms
  displayMaterial :: display_uniforms

type_synonym page = "fluid_gradient \<times> pipeline option \<times> browser"

subsection \<open>Construction and set-up\<close>

definition new_FluidGradient :: fluid_gradient where
  "new_FluidGradient =
     \<lparr>config = \<lparr>brushSize = 25.0, brushStrength = 0.5, distortionAmount = 2.5,
                 fluidDecay = 0.98, trailLength = 0.8, stopDecay = 0.85,
                 color1 = ''#000000'', color2 = ''#111111'', color3 = ''#222222'',
                 color4 = ''#333333'', colorIntensity = 1.0, softness = 1.0\<rparr>,
      mouseX = 0, mouseY = 0, prevMouseX = 0, prevMouseY = 0, lastMoveTime = 0,
      frameCount = 0, isInitialized = False\<rparr>"

text \<open>\<open>setupRenderTargets\<close>: two targets of the window's size; the first is current,
  the second previous.\<close>

definition setupRenderTargets :: "browser \<Rightarrow> size \<times> size \<times> target_ref \<times> target_ref" where
  "setupRenderTargets br =
     ((innerWidth br, innerHeight br), (innerWidth br, innerHeight br),
      FluidTarget1, FluidTarget2)"

definition setupMaterials :: "fluid_gradient \<Rightarrow> browser \<Rightarrow> fluid_uniforms \<times> display_uniforms" where
  "setupMaterials fg br =
     (\<lparr>iTime = 0, iResolution = (innerWidth br, innerHeight br),
       iMouse = (0, 0, 0, 0), iFrame = 0, iPreviousFrame = None,
       uBrushSize = brushSize (config fg), uBrushStrength = brushStrength (config fg),
       uFluidDecay = fluidDecay (config fg), uTrailLength = trailLength (config fg),
       uStopDecay = stopDecay (config fg)\<rparr>,
      \<lparr>iTime = 0, iResolution = (innerWidth br, innerHeight br),
       iFluid = None, uDistortionAmount = distortionAmount (config fg),
       uColor1 = hexToRgb (color1 (config fg)), uColor2 = hexToRgb (color2 (config fg)),
       uColor3 = hexToRgb (color3 (config fg)), uColor4 = hexToRgb (color4 (config fg)),
       uColorIntensity = colorIntensity (config fg), uSoftness = softness (config fg)\<rparr>)"

text \<open>\<open>setupEventListeners\<close> registers the three handlers defined below.\<close>

definition setupEventListeners :: "browser \<Rightarrow> browser" where
  "setupEventListeners br = br\<lparr>listeners := listeners br @ [Mousemove, Mouseleave, Resize]\<rparr>"

subsection \<open>Rendering\<close>

fun targetSize :: "pipeline \<Rightarrow> target_ref \<Rightarrow> size" where
  "targetSize p FluidTarget1 = fluidTarget1 p"
| "targetSize p FluidTarget2 = fluidTarget2 p"

definition bound :: "pipeline \<Rightarrow> target_ref option \<Rightarrow> (target_ref \<times> size) option" where
  "bound p r = map_option (\<lambda>t. (t, targetSize p t)) r"

fun render :: "plane \<Rightarrow> pipeline \<Rightarrow> browser \<Rightarrow> browser" where
  "render FluidPlane p br =
     br\<lparr>draws := draws br @
       [FluidDraw (bound p (renderTarget p)) (iTime (fluidMaterial p))
          (iResolution (fluidMaterial p)) (iMouse (fluidMaterial p)) (iFrame (fluidMaterial p))
          (bound p (iPreviousFrame (fluidMaterial p)))]\<rparr>"
| "render DisplayPlane p br =
     br\<lparr>draws := draws br @
       [DisplayDraw (bound p (renderTarget p)) (iTime (displayMaterial p))
          (iResolution (displayMaterial p)) (bound p (iFluid (displayMaterial p)))]\<rparr>"

subsection \<open>The frame loop\<close>

text \<open>The exchange at the end of \<open>animate\<close>, before the frame counter is incremented:
  the two references are swapped through a temporary.\<close>

definition swapTargets :: "pipeline \<Rightarrow> pipeline" where
  "swapTargets p =
     (let temp = currentFluidTarget p;
          p1 = p\<lparr>currentFluidTarget := previousFluidTarget p\<rparr>
      in p1\<lparr>previousFluidTarget := temp\<rparr>)"

text \<open>
  \<open>animate\<close> reads the clock twice: \<open>t1\<close> is the reading that becomes \<open>iTime\<close> (in
  seconds), \<open>t2\<close> the later reading compared with \<open>lastMoveTime\<close>.
\<close>

definition animate :: "real \<Rightarrow> real \<Rightarrow> fluid_gradient \<times> pipeline \<times> browser \<Rightarrow> fluid_gradient \<times> pipeline \<times> browser" where
  "animate t1 t2 s =
     (case s of (fg, p, br) \<Rightarrow>
      let br1 = br\<lparr>rafPending := Suc (rafPending br)\<rparr>;
          time = t1 * 0.001;
          p1 = p\<lparr>fluidMaterial := (fluidMaterial p)\<lparr>iTime := time\<rparr>\<rparr>;
          p2 = p1\<lparr>displayMaterial := (displayMaterial p1)\<lparr>iTime := time\<rparr>\<rparr>;
          p3 = p2\<lparr>fluidMaterial := (fluidMaterial p2)\<lparr>iFrame := frameCount fg\<rparr>\<rparr>;
          p4 = (if t2 - lastMoveTime fg > 100
                then p3\<lparr>fluidMaterial := (fluidMaterial p3)\<lparr>iMouse := (0, 0, 0, 0)\<rparr>\<rparr>
                else p3);
          p5 = p4\<lparr>fluidMaterial :=
                  (fluidMaterial p4)\<lparr>iPreviousFrame := Some (previousFluidTarget p4)\<rparr>\<rparr>;
          p6 = p5\<lparr>renderTarget := Some (currentFluidTarget p5)\<rparr>;
          br2 = render FluidPlane p6 br1;
          p7 = p6\<lparr>displayMaterial :=
                  (displayMaterial p6)\<lparr>iFluid := Some (currentFluidTarget p6)\<rparr>\<rparr>;
          p8 = p7\<lparr>renderTarget := None\<rparr>;
          br3 = render DisplayPlane p8 br2;
          p9 = swapTargets p8;
          fg1 = fg\<lparr>frameCount := Suc (frameCount fg)\<rparr>
      in (fg1, p9, br3))"

subsection \<open>Initialisation\<close>

text \<open>
  \<open>FluidGradient.init\<close>.  The two early returns leave everything as it is.  Otherwise
  the renderer is created at the window's size and its element appended to the anchor,
  the render targets, materials and listeners are set up, the component is marked
  initialised and the first frame runs (with clock readings \<open>t1\<close>, \<open>t2\<close>).  The camera,
  the geometry and the two meshes made by \<open>setupGeometry\<close> are never changed afterwards
  and are left out; a mesh is named by its \<open>plane\<close>.
\<close>

definition init :: "real \<Rightarrow> real \<Rightarrow> page \<Rightarrow> page" where
  "init t1 t2 pg =
     (case pg of (fg, gl, br) \<Rightarrow>
      if isInitialized fg then (fg, gl, br)
      else
        (case gradientCanvas br of
           None \<Rightarrow> (fg, gl, br)
         | Some children \<Rightarrow>
             let br1 = br\<lparr>gradientCanvas := Some (Suc children)\<rparr>;
                 (t1size, t2size, cur, prev) = setupRenderTargets br1;
                 (fm, dm) = setupMaterials fg br1;
                 p = \<lparr>rendererSize = (innerWidth br1, innerHeight br1), renderTarget = None,
                      fluidTarget1 = t1size, fluidTarget2 = t2size,
                      currentFluidTarget = cur, previousFluidTarget = prev,
                      fluidMaterial = fm, displayMaterial = dm\<rparr>;
                 br2 = setupEventListeners br1;
                 fg1 = fg\<lparr>isInitialized := True\<rparr>;
                 (fg2, p2, br3) = animate t1 t2 (fg1, p, br2)
             in (fg2, Some p2, br3)))"

subsection \<open>Event handlers\<close>

text \<open>A \<open>mousemove\<close> event as its handler sees it: the client coordinates, the
  bounding rectangle of the anchor element at that moment, and the clock reading.\<close>

record mouse_event =
  clientX :: real
  clientY :: real
  rect_left :: real
  rect_top :: real
  rect_height :: real
  now :: real

definition on_mousemove :: "mouse_event \<Rightarrow> fluid_gradient \<times> pipeline \<Rightarrow> fluid_gradient \<times> pipeline" where
  "on_mousemove e s =
     (case s of (fg, p) \<Rightarrow>
      let fg1 = fg\<lparr>prevMouseX := mouseX fg\<rparr>;
          fg2 = fg1\<lparr>prevMouseY := mouseY fg1\<rparr>;
          fg3 = fg2\<lparr>mouseX := clientX e - rect_left e\<rparr>;
          fg4 = fg3\<lparr>mouseY := rect_height e - (clientY e - rect_top e)\<rparr>;
          fg5 = fg4\<lparr>lastMoveTime := now e\<rparr>
      in (fg5, p\<lparr>fluidMaterial := (fluidMaterial p)
                  \<lparr>iMouse := (mouseX fg5, mouseY fg5, prevMouseX fg5, prevMouseY fg5)\<rparr>\<rparr>))"

definition on_mouseleave :: "fluid_gradient \<times> pipeline \<Rightarrow> fluid_gradient \<times> pipeline" where
  "on_mouseleave s =
     (case s of (fg, p) \<Rightarrow>
      (fg, p\<lparr>fluidMaterial := (fluidMaterial p)\<lparr>iMouse := (0, 0, 0, 0)\<rparr>\<rparr>))"

text \<open>The \<open>resize\<close> handler; \<open>width\<close> and \<open>height\<close> are the window's new inner
  dimensions.  \<open>target.setSize\<close> gives a render target its new dimensions.\<close>

definition on_resize :: "nat \<Rightarrow> nat \<Rightarrow> fluid_gradient \<times> pipeline \<Rightarrow> fluid_gradient \<times> pipeline" where
  "on_resize width height s =
     (case s of (fg, p) \<Rightarrow>
      let p1 = p\<lparr>rendererSize := (width, height)\<rparr>;
          p2 = p1\<lparr>fluidMaterial := (fluidMaterial p1)\<lparr>iResolution := (width, height)\<rparr>\<rparr>;
          p3 = p2\<lparr>displayMaterial := (displayMaterial p2)\<lparr>iResolution := (width, height)\<rparr>\<rparr>;
          p4 = p3\<lparr>fluidTarget1 := (width, height)\<rparr>;
          p5 = p4\<lparr>fluidTarget2 := (width, height)\<rparr>
      in (fg\<lparr>frameCount := 0\<rparr>, p5))"

subsection \<open>Runs of the page\<close>

text \<open>
  What the host delivers to the page, one at a time and never during a frame: a pointer
  move, the pointer leaving, the window resized to new inner dimensions, and a display
  refresh, which runs one pending animation-frame callback.  A handler runs if it has
  been registered; before \<open>init\<close> has set the component up nothing is registered and no
  callback is pending.
\<close>

datatype event = MouseMove mouse_event | MouseLeave | Resized nat nat | Frame real real

fun step :: "event \<Rightarrow> page \<Rightarrow> page" where
  "step (MouseMove e) (fg, Some p, br) =
     (if Mousemove \<in> set (listeners br)
      then (case on_mousemove e (fg, p) of (fg1, p1) \<Rightarrow> (fg1, Some p1, br))
      else (fg, Some p, br))"
| "step MouseLeave (fg, Some p, br) =
     (if Mouseleave \<in> set (listeners br)
      then (case on_mouseleave (fg, p) of (fg1, p1) \<Rightarrow> (fg1, Some p1, br))
      else (fg, Some p, br))"
| "step (Resized w h) (fg, Some p, br) =
     (let br1 = br\<lparr>innerWidth := w, innerHeight := h\<rparr> in
      if Resize \<in> set (listeners br1)
      then (case on_resize w h (fg, p) of (fg1, p1) \<Rightarrow> (fg1, Some p1, br1))
      else (fg, Some p, br1))"
| "step (Frame t1 t2) (fg, Some p, br) =
     (if rafPending br = 0 then (fg, Some p, br)
      else (case animate t1 t2 (fg, p, br\<lparr>rafPending := rafPending br - 1\<rparr>) of
              (fg1, p1, br1) \<Rightarrow> (fg1, Some p1, br1)))"
| "step (Resized w h) (fg, None, br) = (fg, None, br\<lparr>innerWidth := w, innerHeight := h\<rparr>)"
| "step ev (fg, None, br) = (fg, None, br)"

fun run :: "event list \<Rightarrow> page \<Rightarrow> page" where
  "run [] pg = pg"
| "run (ev # evs) pg = run evs (step ev pg)"

subsection \<open>The preloader\<close>

text \<open>A tween appended to the preloader's timeline: the selector, the target \<open>x\<close>, and
  the target \<open>x\<close> of the wrapper tween that its \<open>onStart\<close> callback starts, if it has
  one.\<close>

datatype tween = Tween string real "real option"

text \<open>The fields of a \<open>PreloaderAnimation\<close>: the two elements looked up by id (\<open>None\<close>
  for \<open>null\<close>) and the timeline.\<close>

record preloader_animation =
  preloader :: "string option"
  mainContent :: "string option"
  timeline :: "tween list"

definition setupAnimation :: "preloader_animation \<Rightarrow> browser \<Rightarrow> preloader_animation \<times> browser" where
  "setupAnimation pa br =
     (let windowWidth = real (innerWidth br);
          wrapperWidth = 180;
          finalPosition = windowWidth - wrapperWidth;
          stepDistance = finalPosition / 6;
          pa1 = pa\<lparr>timeline := timeline pa @ [Tween ''.count'' (- 900) None]\<rparr>;
          pa2 = pa1\<lparr>timeline := timeline pa1 @
                  map (\<lambda>i. Tween ''.count'' (- 900 + real i * 180) (Some (stepDistance * real i)))
                    [1..<7]\<rparr>;
          br1 = br\<lparr>gsapCalls := gsapCalls br @ [GsapSet ''.revealer svg'' 0]\<rparr>;
          delays = [6, 6.5, 7];
          br2 = br1\<lparr>gsapCalls := gsapCalls br1 @
                  map (\<lambda>i. GsapTo i 45 (if i < length delays then Some (delays ! i) else None))
                    [0..<revealerSvgs br1]\<rparr>
      in (pa2, br2))"

text \<open>\<open>PreloaderAnimation.init\<close>.\<close>

definition preloader_init :: "preloader_animation \<Rightarrow> browser \<Rightarrow> preloader_animation \<times> browser" where
  "preloader_init pa br =
     (case preloader pa of
        None \<Rightarrow> (pa, br\<lparr>console := console br @ [''Preloader element not found'']\<rparr>)
      | Some el \<Rightarrow> setupAnimation pa br)"

section \<open>Observing runs\<close>

text \<open>The pointer quad a draw call passes to the simulation shader; the display pass
  has none.\<close>

fun pointerQuad :: "draw \<Rightarrow> vec4 option" where
  "pointerQuad (FluidDraw tgt time res quad frame prev) = Some quad"
| "pointerQuad (DisplayDraw tgt time res fluid) = None"

text \<open>The render target a draw call writes (\<open>None\<close> is the screen) and the one whose
  texture it samples.\<close>

fun passTargets :: "draw \<Rightarrow> target_ref option \<times> target_ref option" where
  "passTargets (FluidDraw tgt time res quad frame prev) = (map_option fst tgt, map_option fst prev)"
| "passTargets (DisplayDraw tgt time res fluid) = (map_option fst tgt, map_option fst fluid)"

text \<open>Frames are counted along a run.\<close>

fun isFrame :: "event \<Rightarrow> bool" where
  "isFrame (Frame t1 t2) = True"
| "isFrame ev = False"

definition frames :: "event list \<Rightarrow> nat" where
  "frames evs = length (filter isFrame evs)"

text \<open>
  An event of a pointer that has been idle since the clock reading \<open>moved\<close>: not a pointer
  move, and if it is a frame then its idle check reads the clock more than 100 ms after
  \<open>moved\<close>.
\<close>

fun idleEvent :: "real \<Rightarrow> event \<Rightarrow> bool" where
  "idleEvent moved (MouseMove e) = False"
| "idleEvent moved (Frame t1 t2) = (t2 - moved > 100)"
| "idleEvent moved ev = True"

subsection \<open>A concrete page\<close>

text \<open>
  An 800 by 600 window with the anchor element present, in which the component is
  initialised half a second after the page's time origin; and a pointer move whose
  position in the local, Y-flipped space of the anchor is \<open>(x, y)\<close>, for an anchor 600
  pixels high whose top left corner is at \<open>(10, 20)\<close> in the window.
\<close>

definition demo_browser :: browser where
  "demo_browser = \<lparr>innerWidth = 800, innerHeight = 600, gradientCanvas = Some 0, listeners = [],
     rafPending = 0, draws = [], console = [], revealerSvgs = 3, gsapCalls = []\<rparr>"

definition demo_page :: page where
  "demo_page = init 500 500 (new_FluidGradient, None, demo_browser)"

definition demo_move :: "real \<Rightarrow> real \<Rightarrow> real \<Rightarrow> mouse_event" where
  "demo_move x y t = \<lparr>clientX = x + 10, clientY = 20 + (600 - y), rect_left = 10, rect_top = 20,
     rect_height = 600, now = t\<rparr>"

section \<open>Properties of the frame loop and the handlers\<close>

subsection \<open>One frame\<close>

lemma swapTargets_roles [simp]:
  "currentFluidTarget (swapTargets p) = previousFluidTarget p"
  "previousFluidTarget (swapTargets p) = currentFluidTarget p"
  by (simp_all add: swapTargets_def)

lemma swapTargets_other [simp]:
  "fluidMaterial (swapTargets p) = fluidMaterial p"
  "displayMaterial (swapTargets p) = displayMaterial p"
  "fluidTarget1 (swapTargets p) = fluidTarget1 p"
  "fluidTarget2 (swapTargets p) = fluidTarget2 p"
  "rendererSize (swapTargets p) = rendererSize p"
  "renderTarget (swapTargets p) = renderTarget p"
  by (simp_all add: swapTargets_def)

lemma swapTargets_twice: "swapTargets (swapTargets q) = q"
  by (simp add: swapTargets_def)

lemma targetSize_update [simp]:
  "targetSize (p\<lparr>rendererSize := s\<rparr>) t = targetSize p t"
  "targetSize (p\<lparr>renderTarget := r\<rparr>) t = targetSize p t"
  "targetSize (p\<lparr>currentFluidTarget := c\<rparr>) t = targetSize p t"
  "targetSize (p\<lparr>previousFluidTarget := c\<rparr>) t = targetSize p t"
  "targetSize (p\<lparr>fluidMaterial := fm\<rparr>) t = targetSize p t"
  "targetSize (p\<lparr>displayMaterial := dm\<rparr>) t = targetSize p t"
  by (cases t; simp)+

lemma animate_eq:
  "animate t1 t2 (fg, p, br) =
     (fg\<lparr>frameCount := Suc (frameCount fg)\<rparr>,
      p\<lparr>renderTarget := None,
        currentFluidTarget := previousFluidTarget p,
        previousFluidTarget := currentFluidTarget p,
        fluidMaterial := (fluidMaterial p)
          \<lparr>iTime := t1 * 0.001, iFrame := frameCount fg,
           iMouse := (if t2 - lastMoveTime fg > 100 then (0, 0, 0, 0) else iMouse (fluidMaterial p)),
           iPreviousFrame := Some (previousFluidTarget p)\<rparr>,
        displayMaterial := (displayMaterial p)
          \<lparr>iTime := t1 * 0.001, iFluid := Some (currentFluidTarget p)\<rparr>\<rparr>,
      br\<lparr>rafPending := Suc (rafPending br),
         draws := draws br @
           [FluidDraw (Some (currentFluidTarget p, targetSize p (currentFluidTarget p))) (t1 * 0.001)
              (iResolution (fluidMaterial p))
              (if t2 - lastMoveTime fg > 100 then (0, 0, 0, 0) else iMouse (fluidMaterial p))
              (frameCount fg)
              (Some (previousFluidTarget p, targetSize p (previousFluidTarget p))),
            DisplayDraw None (t1 * 0.001) (iResolution (displayMaterial p))
              (Some (currentFluidTarget p, targetSize p (currentFluidTarget p)))]\<rparr>)"
  by (simp add: animate_def bound_def Let_def swapTargets_def)

subsection \<open>Pages in which the component runs\<close>

lemma frames_simps [simp]:
  "frames [] = 0"
  "frames (Frame t1 t2 # evs) = Suc (frames evs)"
  "frames (MouseMove e # evs) = frames evs"
  "frames (MouseLeave # evs) = frames evs"
  "frames (Resized w h # evs) = frames evs"
  by (simp_all add: frames_def)

lemma step_running:
  assumes "0 < rafPending br"
  shows "\<exists>fg1 p1 br1. step ev (fg, Some p, br) = (fg1, Some p1, br1)
           \<and> rafPending br1 = rafPending br \<and> listeners br1 = listeners br
           \<and> gradientCanvas br1 = gradientCanvas br \<and> console br1 = console br
           \<and> isInitialized fg1 = isInitialized fg
           \<and> currentFluidTarget p1 = (if isFrame ev then previousFluidTarget p else currentFluidTarget p)
           \<and> previousFluidTarget p1 = (if isFrame ev then currentFluidTarget p else previousFluidTarget p)"
proof (cases ev)
  case (MouseMove e)
  then show ?thesis by (simp add: on_mousemove_def Let_def)
next
  case MouseLeave
  then show ?thesis by (simp add: on_mouseleave_def)
next
  case (Resized w h)
  then show ?thesis by (simp add: on_resize_def Let_def)
next
  case (Frame t1 t2)
  with assms show ?thesis by (simp add: animate_eq)
qed

lemma run_running:
  assumes "0 < rafPending br"
  shows "\<exists>fg1 p1 br1. run evs (fg, Some p, br) = (fg1, Some p1, br1)
           \<and> rafPending br1 = rafPending br \<and> listeners br1 = listeners br
           \<and> gradientCanvas br1 = gradientCanvas br \<and> console br1 = console br
           \<and> isInitialized fg1 = isInitialized fg
           \<and> currentFluidTarget p1 = (if even (frames evs) then currentFluidTarget p else previousFluidTarget p)
           \<and> previousFluidTarget p1 = (if even (frames evs) then previousFluidTarget p else currentFluidTarget p)"
  using assms
proof (induction evs arbitrary: fg p br)
  case Nil
  then show ?case by simp
next
  case (Cons ev evs)
  from step_running[OF Cons.prems, of ev fg p]
  obtain fg1 p1 br1 where s: "step ev (fg, Some p, br) = (fg1, Some p1, br1)"
     "rafPending br1 = rafPending br" "listeners br1 = listeners br"
     "gradientCanvas br1 = gradientCanvas br" "console br1 = console br"
     "isInitialized fg1 = isInitialized fg"
     "currentFluidTarget p1 = (if isFrame ev then previousFluidTarget p else currentFluidTarget p)"
     "previousFluidTarget p1 = (if isFrame ev then currentFluidTarget p else previousFluidTarget p)"
    by blast
  from Cons.prems s have "0 < rafPending br1" by simp
  from Cons.IH[OF this, of fg1 p1] obtain fg2 p2 br2 where
     r: "run evs (fg1, Some p1, br1) = (fg2, Some p2, br2)"
     "rafPending br2 = rafPending br1" "listeners br2 = listeners br1"
     "gradientCanvas br2 = gradientCanvas br1" "console br2 = console br1"
     "isInitialized fg2 = isInitialized fg1"
     "currentFluidTarget p2 = (if even (frames evs) then currentFluidTarget p1 else previousFluidTarget p1)"
     "previousFluidTarget p2 = (if even (frames evs) then previousFluidTarget p1 else currentFluidTarget p1)"
    by blast
  show ?case
    using s r by (cases ev) simp_all
qed

lemma init_success:
  assumes "gradientCanvas br = Some n" "\<not> isInitialized fg"
  shows "\<exists>fg1 p1 br1. init t1 t2 (fg, gl, br) = (fg1, Some p1, br1)
           \<and> isInitialized fg1 \<and> rafPending br1 = Suc (rafPending br)
           \<and> listeners br1 = listeners br @ [Mousemove, Mouseleave, Resize]
           \<and> gradientCanvas br1 = Some (Suc n)
           \<and> currentFluidTarget p1 = FluidTarget2 \<and> previousFluidTarget p1 = FluidTarget1"
  using assms
  by (simp add: init_def setupRenderTargets_def setupEventListeners_def Let_def animate_eq
        split: prod.splits)

lemma idle_run:
  assumes "0 < rafPending br" "list_all (idleEvent (lastMoveTime fg)) evs"
  shows "\<exists>fg1 p1 br1 ds. run evs (fg, Some p, br) = (fg1, Some p1, br1)
           \<and> lastMoveTime fg1 = lastMoveTime fg \<and> draws br1 = draws br @ ds
           \<and> map pointerQuad ds = concat (replicate (frames evs) [Some (0, 0, 0, 0), None])"
  using assms
proof (induction evs arbitrary: fg p br)
  case Nil
  then show ?case by simp
next
  case (Cons ev evs)
  have "\<exists>fg1 p1 br1 d0. step ev (fg, Some p, br) = (fg1, Some p1, br1)
          \<and> 0 < rafPending br1 \<and> lastMoveTime fg1 = lastMoveTime fg \<and> draws br1 = draws br @ d0
          \<and> map pointerQuad d0 = (if isFrame ev then [Some (0, 0, 0, 0), None] else [])"
    using Cons.prems
    by (cases ev) (simp_all add: on_mouseleave_def on_resize_def Let_def animate_eq)
  then obtain fg1 p1 br1 d0 where s: "step ev (fg, Some p, br) = (fg1, Some p1, br1)"
      "0 < rafPending br1" "lastMoveTime fg1 = lastMoveTime fg" "draws br1 = draws br @ d0"
      "map pointerQuad d0 = (if isFrame ev then [Some (0, 0, 0, 0), None] else [])"
    by blast
  from Cons.prems s have "list_all (idleEvent (lastMoveTime fg1)) evs" by simp
  from Cons.IH[OF s(2) this, of p1] obtain fg2 p2 br2 ds where
    r: "run evs (fg1, Some p1, br1) = (fg2, Some p2, br2)" "lastMoveTime fg2 = lastMoveTime fg1"
       "draws br2 = draws br1 @ ds"
       "map pointerQuad ds = concat (replicate (frames evs) [Some (0, 0, 0, 0), None])"
    by blast
  have a: "run (ev # evs) (fg, Some p, br) = (fg2, Some p2, br2)" using s r by simp
  have b: "lastMoveTime fg2 = lastMoveTime fg" using s r by simp
  have c: "draws br2 = draws br @ (d0 @ ds)" using s r by simp
  have d: "map pointerQuad (d0 @ ds) = concat (replicate (frames (ev # evs)) [Some (0, 0, 0, 0), None])"
    using s r by (cases ev) simp_all
  from a b c d show ?case by blast
qed

text \<open>Every page reached from a successful initialisation has a pipeline, a pending
  frame callback and the three listeners; its buffer roles follow the parity of the
  frames run since.\<close>

lemma reachable_running:
  assumes "gradientCanvas br0 = Some n" and "\<not> isInitialized fg0"
    and "run evs (init t0 t0' (fg0, gl0, br0)) = (fg, gl, br)"
  shows "\<exists>p. gl = Some p \<and> 0 < rafPending br \<and> isInitialized fg
           \<and> listeners br = listeners br0 @ [Mousemove, Mouseleave, Resize]
           \<and> currentFluidTarget p = (if even (frames evs) then FluidTarget2 else FluidTarget1)
           \<and> previousFluidTarget p = (if even (frames evs) then FluidTarget1 else FluidTarget2)"
proof -
  from init_success[OF assms(1,2), of t0 t0' gl0]
  obtain fg1 p1 br1 where i: "init t0 t0' (fg0, gl0, br0) = (fg1, Some p1, br1)"
    "isInitialized fg1" "rafPending br1 = Suc (rafPending br0)"
    "listeners br1 = listeners br0 @ [Mousemove, Mouseleave, Resize]"
    "currentFluidTarget p1 = FluidTarget2" "previousFluidTarget p1 = FluidTarget1"
    by blast
  then have "0 < rafPending br1" by simp
  from run_running[OF this, of evs fg1 p1] i assms(3)
  show ?thesis by auto
qed

subsection \<open>Evaluating the concrete page\<close>

lemma pair3: "x = (fst x, fst (snd x), snd (snd x))"
  by simp

lemmas demo_defs = demo_page_def demo_browser_def new_FluidGradient_def init_def
  setupRenderTargets_def setupMaterials_def setupEventListeners_def animate_eq
  on_resize_def on_mousemove_def on_mouseleave_def demo_move_def Let_def

lemma demo_hyps:
  "gradientCanvas demo_browser = Some 0" "\<not> isInitialized new_FluidGradient"
  by (simp_all add: demo_browser_def new_FluidGradient_def)

section \<open>The specified properties\<close>

subsection \<open>Colour conversion\<close>

lemma isHexDigit_facts:
  "isHexDigit c \<Longrightarrow>
     digitValue c = Some (hexDigitValue c) \<and> hexDigitValue c < 16 \<and> \<not> isWhiteSpace c \<and>
     c \<noteq> CHR ''+'' \<and> c \<noteq> CHR ''-'' \<and> c \<noteq> CHR ''x'' \<and> c \<noteq> CHR ''X''"
  unfolding isHexDigit_def
  by (auto simp: digitValue_def hexDigitValue_def isWhiteSpace_def)

lemma parseInt16_two_digits:
  assumes "isHexDigit hi" "isHexDigit lo"
  shows "parseInt16 [hi, lo] = Num (real (componentValue hi lo))"
  using isHexDigit_facts[OF assms(1)] isHexDigit_facts[OF assms(2)]
  by (simp add: parseInt16_def isRadixDigit_def componentValue_def)

lemma componentValue_le:
  assumes "isHexDigit hi" "isHexDigit lo"
  shows "componentValue hi lo \<le> 255"
  using isHexDigit_facts[OF assms(1)] isHexDigit_facts[OF assms(2)]
  by (simp add: componentValue_def)

text \<open>
  Claim C6.  For a string \<open>#RRGGBB\<close> whose six characters after \<open>#\<close> are hexadecimal
  digits, \<open>hexToRgb\<close> returns three numbers, none of them \<open>NaN\<close>; each is the value of
  its two-digit component divided by 255 and lies between 0 and 1.
\<close>

theorem hexToRgb_components:
  assumes "isHexDigit r1" and "isHexDigit r2" and "isHexDigit g1" and "isHexDigit g2"
    and "isHexDigit b1" and "isHexDigit b2"
  shows "hexToRgb [CHR ''#'', r1, r2, g1, g2, b1, b2] =
           [Num (real (componentValue r1 r2) / 255), Num (real (componentValue g1 g2) / 255),
            Num (real (componentValue b1 b2) / 255)]
         \<and> 0 \<le> real (componentValue r1 r2) / 255 \<and> real (componentValue r1 r2) / 255 \<le> 1
         \<and> 0 \<le> real (componentValue g1 g2) / 255 \<and> real (componentValue g1 g2) / 255 \<le> 1
         \<and> 0 \<le> real (componentValue b1 b2) / 255 \<and> real (componentValue b1 b2) / 255 \<le> 1"
proof -
  have "hexToRgb [CHR ''#'', r1, r2, g1, g2, b1, b2] =
          [number_div (parseInt16 [r1, r2]) 255, number_div (parseInt16 [g1, g2]) 255,
           number_div (parseInt16 [b1, b2]) 255]"
    by (simp add: hexToRgb_def slice_def)
  moreover have "componentValue r1 r2 \<le> 255" "componentValue g1 g2 \<le> 255"
    "componentValue b1 b2 \<le> 255"
    using assms by (simp_all add: componentValue_le)
  ultimately show ?thesis
    using assms by (simp add: parseInt16_two_digits)
qed

theorem hexToRgb_components_witness:
  "isHexDigit CHR ''f'' \<and> isHexDigit CHR ''8'' \<and> isHexDigit CHR ''0'' \<and> isHexDigit CHR ''A''
   \<and> hexToRgb ''#f8800A'' = [Num (248 / 255), Num (128 / 255), Num (10 / 255)]"
proof -
  have h: "isHexDigit CHR ''f''" "isHexDigit CHR ''8''" "isHexDigit CHR ''0''" "isHexDigit CHR ''A''"
    by (simp_all add: isHexDigit_def)
  from hexToRgb_components[OF h(1) h(2) h(2) h(3) h(3) h(4)] h
  show ?thesis by (simp add: componentValue_def hexDigitValue_def)
qed

subsection \<open>The two buffers\<close>

text \<open>
  Claim C1.  Take any page reached from a successful initialisation by any sequence of
  events.  Its two buffer references are different render targets, fixed by the parity
  of the frames run since: one is the write target and the other the read source, and
  they alternate from frame to frame, whatever other events come in between.  A frame
  run on this page submits exactly two draw calls, in this order: the simulation pass,
  which writes the current target and samples the previous one, then the display pass,
  which writes the screen and samples the target just written.  The page it leaves has
  the pipeline with which the two passes ran, its two references exchanged: the swap
  comes after the display pass and once per frame.  Exchanging twice gives back the
  assignment.
\<close>

theorem frame_ping_pong:
  assumes "gradientCanvas br0 = Some n" and "\<not> isInitialized fg0"
    and "run evs (init t0 t0' (fg0, gl0, br0)) = (fg, gl, br)"
  shows "\<exists>p. gl = Some p
      \<and> currentFluidTarget p = (if even (frames evs) then FluidTarget2 else FluidTarget1)
      \<and> previousFluidTarget p = (if even (frames evs) then FluidTarget1 else FluidTarget2)
      \<and> step (Frame t1 t2) (fg, gl, br) =
          (fg\<lparr>frameCount := Suc (frameCount fg)\<rparr>,
           Some (swapTargets (p
             \<lparr>renderTarget := None,
              fluidMaterial := (fluidMaterial p)
                \<lparr>iTime := t1 * 0.001, iFrame := frameCount fg,
                 iMouse := (if t2 - lastMoveTime fg > 100 then (0, 0, 0, 0)
                            else iMouse (fluidMaterial p)),
                 iPreviousFrame := Some (previousFluidTarget p)\<rparr>,
              displayMaterial := (displayMaterial p)
                \<lparr>iTime := t1 * 0.001, iFluid := Some (currentFluidTarget p)\<rparr>\<rparr>)),
           br\<lparr>draws := draws br @
             [FluidDraw (Some (currentFluidTarget p, targetSize p (currentFluidTarget p)))
                (t1 * 0.001) (iResolution (fluidMaterial p))
                (if t2 - lastMoveTime fg > 100 then (0, 0, 0, 0) else iMouse (fluidMaterial p))
                (frameCount fg)
                (Some (previousFluidTarget p, targetSize p (previousFluidTarget p))),
              DisplayDraw None (t1 * 0.001) (iResolution (displayMaterial p))
                (Some (currentFluidTarget p, targetSize p (currentFluidTarget p)))]\<rparr>)
      \<and> swapTargets (swapTargets q) = q"
proof -
  from reachable_running[OF assms]
  obtain p where r: "gl = Some p" "0 < rafPending br"
    "currentFluidTarget p = (if even (frames evs) then FluidTarget2 else FluidTarget1)"
    "previousFluidTarget p = (if even (frames evs) then FluidTarget1 else FluidTarget2)"
    by blast
  from r(2) have "step (Frame t1 t2) (fg, Some p, br) =
          (fg\<lparr>frameCount := Suc (frameCount fg)\<rparr>,
           Some (swapTargets (p
             \<lparr>renderTarget := None,
              fluidMaterial := (fluidMaterial p)
                \<lparr>iTime := t1 * 0.001, iFrame := frameCount fg,
                 iMouse := (if t2 - lastMoveTime fg > 100 then (0, 0, 0, 0)
                            else iMouse (fluidMaterial p)),
                 iPreviousFrame := Some (previousFluidTarget p)\<rparr>,
              displayMaterial := (displayMaterial p)
                \<lparr>iTime := t1 * 0.001, iFluid := Some (currentFluidTarget p)\<rparr>\<rparr>)),
           br\<lparr>draws := draws br @
             [FluidDraw (Some (currentFluidTarget p, targetSize p (currentFluidTarget p)))
                (t1 * 0.001) (iResolution (fluidMaterial p))
                (if t2 - lastMoveTime fg > 100 then (0, 0, 0, 0) else iMouse (fluidMaterial p))
                (frameCount fg)
                (Some (previousFluidTarget p, targetSize p (previousFluidTarget p))),
              DisplayDraw None (t1 * 0.001) (iResolution (displayMaterial p))
                (Some (currentFluidTarget p, targetSize p (currentFluidTarget p)))]\<rparr>)"
    by (simp add: animate_eq swapTargets_def)
  with r show ?thesis by (simp add: swapTargets_twice)
qed

theorem frame_ping_pong_witness:
  "gradientCanvas demo_browser = Some 0 \<and> \<not> isInitialized new_FluidGradient
   \<and> (\<exists>p. fst (snd (run [Frame 516 516, Resized 1024 768, Frame 532 532] demo_page)) = Some p
          \<and> currentFluidTarget p = FluidTarget2 \<and> previousFluidTarget p = FluidTarget1)
   \<and> map passTargets (draws (snd (snd (run [Frame 516 516, Resized 1024 768, Frame 532 532,
         Frame 548 548] demo_page)))) =
       [(Some FluidTarget1, Some FluidTarget2), (None, Some FluidTarget1),
        (Some FluidTarget2, Some FluidTarget1), (None, Some FluidTarget2),
        (Some FluidTarget1, Some FluidTarget2), (None, Some FluidTarget1),
        (Some FluidTarget2, Some FluidTarget1), (None, Some FluidTarget2)]"
  using frame_ping_pong[OF demo_hyps
      pair3[of "run [Frame 516 516, Resized 1024 768, Frame 532 532] (init 500 500 (new_FluidGradient, None, demo_browser))"],
      of 548 548] demo_hyps
  by (simp add: demo_defs bound_def)

subsection \<open>Pointer idleness\<close>

text \<open>
  Claim C2, as the code has it.  In any page reached from a successful initialisation,
  let the pointer be idle from then on: no pointer move arrives, and every frame's idle
  check reads the clock more than 100 ms after the last recorded move.  Then, whatever
  else happens (the pointer leaving, resizes) and however late the frames come, every
  frame passes the pointer quad \<open>(0, 0, 0, 0)\<close> to the simulation pass, and the recorded
  time of the last move stays as it is, so the same holds for all later frames.  The
  threshold is strict: the instance below has a frame 150 ms after the move, and the
  counterexample one exactly 100 ms after it.
\<close>

theorem idle_quad_zero:
  assumes "gradientCanvas br0 = Some n" and "\<not> isInitialized fg0"
    and "run evs0 (init t0 t0' (fg0, gl0, br0)) = (fg, gl, br)"
    and "list_all (idleEvent (lastMoveTime fg)) evs"
    and "run evs (fg, gl, br) = (fg1, gl1, br1)"
  shows "lastMoveTime fg1 = lastMoveTime fg \<and>
         (\<exists>ds. draws br1 = draws br @ ds \<and>
               map pointerQuad ds = concat (replicate (frames evs) [Some (0, 0, 0, 0), None]))"
proof -
  from reachable_running[OF assms(1,2,3)] obtain p where p: "gl = Some p" "0 < rafPending br"
    by blast
  from idle_run[OF p(2) assms(4), of p] assms(5) p(1) show ?thesis by auto
qed

theorem idle_quad_zero_witness:
  "gradientCanvas demo_browser = Some 0 \<and> \<not> isInitialized new_FluidGradient
   \<and> list_all (idleEvent (lastMoveTime (fst (run [MouseMove (demo_move 150 120 1000)] demo_page))))
        [Frame 1150.5 1151, MouseLeave, Frame 1167 1167, Resized 1024 768, Frame 9000 9000]
   \<and> lastMoveTime (fst (run [MouseMove (demo_move 150 120 1000)] demo_page)) = 1000
   \<and> map pointerQuad (draws (snd (snd (run [MouseMove (demo_move 150 120 1000), Frame 1150.5 1151,
          MouseLeave, Frame 1167 1167, Resized 1024 768, Frame 9000 9000] demo_page)))) =
       [Some (0, 0, 0, 0), None, Some (0, 0, 0, 0), None, Some (0, 0, 0, 0), None, Some (0, 0, 0, 0), None]"
proof -
  have l: "list_all (idleEvent (lastMoveTime (fst (run [MouseMove (demo_move 150 120 1000)] demo_page))))
        [Frame 1150.5 1151, MouseLeave, Frame 1167 1167, Resized 1024 768, Frame 9000 9000]"
    by (simp add: demo_defs)
  from idle_quad_zero[OF demo_hyps pair3[of "run [MouseMove (demo_move 150 120 1000)] (init 500 500 (new_FluidGradient, None, demo_browser))"],
      of "[Frame 1150.5 1151, MouseLeave, Frame 1167 1167, Resized 1024 768, Frame 9000 9000]", 
      OF l[unfolded demo_page_def] pair3]
  show ?thesis
    using demo_hyps l by (simp add: demo_defs)
qed

text \<open>A frame whose idle check reads the clock exactly 100 ms after the last move still
  passes the quad of that move.\<close>

theorem idle_exactly_100_counterexample:
  "(1100::real) - now (demo_move 150 120 1000) \<ge> 100
   \<and> map pointerQuad (draws (snd (snd (run [MouseMove (demo_move 150 120 1000), Frame 1100 1100] demo_page)))) =
       [Some (0, 0, 0, 0), None, Some (150, 120, 0, 0), None]
   \<and> ((150, 120, 0, 0) :: vec4) \<noteq> (0, 0, 0, 0)"
  by (simp add: demo_defs)

subsection \<open>Pointer moves\<close>

text \<open>
  Claim C5, as the code has it.  The \<open>mousemove\<close> handler copies the stored position
  into the previous position, stores the new position converted to the anchor's local
  space with the Y axis flipped, stamps the clock reading, and sets the pointer quad to
  (new position, previous position).  After a move to \<open>(100, 100)\<close> and a move to
  \<open>(150, 120)\<close> in that space, the frame that follows passes \<open>(150, 120, 100, 100)\<close> to
  the simulation pass if its idle check reads the clock at most 100 ms after the second
  move, and \<open>(0, 0, 0, 0)\<close> if it reads it later; the time between the two moves plays no
  part.
\<close>

theorem mousemove_quad:
  "on_mousemove e (fg, p) =
     (fg\<lparr>prevMouseX := mouseX fg, prevMouseY := mouseY fg,
         mouseX := clientX e - rect_left e,
         mouseY := rect_height e - (clientY e - rect_top e),
         lastMoveTime := now e\<rparr>,
      p\<lparr>fluidMaterial := (fluidMaterial p)
         \<lparr>iMouse := (clientX e - rect_left e, rect_height e - (clientY e - rect_top e),
                    mouseX fg, mouseY fg)\<rparr>\<rparr>)
   \<and> (clientX e1 - rect_left e1 = 100 \<and> rect_height e1 - (clientY e1 - rect_top e1) = 100
      \<and> clientX e2 - rect_left e2 = 150 \<and> rect_height e2 - (clientY e2 - rect_top e2) = 120
      \<and> on_mousemove e2 (on_mousemove e1 (fg, p)) = (fg2, p2)
      \<and> animate t1 t2 (fg2, p2, br) = (fg3, p3, br3)
      \<longrightarrow> (\<exists>ds. draws br3 = draws br @ ds \<and>
             map pointerQuad ds =
               [Some (if t2 - now e2 \<le> 100 then (150, 120, 100, 100) else (0, 0, 0, 0)), None]))"
  by (auto simp add: on_mousemove_def animate_eq Let_def)

theorem mousemove_quad_witness:
  "clientX (demo_move 100 100 1000) - rect_left (demo_move 100 100 1000) = 100
   \<and> rect_height (demo_move 100 100 1000) - (clientY (demo_move 100 100 1000) - rect_top (demo_move 100 100 1000)) = 100
   \<and> clientX (demo_move 150 120 1040) - rect_left (demo_move 150 120 1040) = 150
   \<and> rect_height (demo_move 150 120 1040) - (clientY (demo_move 150 120 1040) - rect_top (demo_move 150 120 1040)) = 120
   \<and> (1056 :: real) - now (demo_move 150 120 1040) \<le> 100
   \<and> map pointerQuad (draws (snd (snd (run [MouseMove (demo_move 100 100 1000),
          MouseMove (demo_move 150 120 1040), Frame 1056 1056] demo_page)))) =
       [Some (0, 0, 0, 0), None, Some (150, 120, 100, 100), None]"
  using mousemove_quad[of "demo_move 150 120 1040" "fst demo_page" "the (fst (snd demo_page))"
      "demo_move 100 100 1000" "demo_move 150 120 1040"
      "fst (on_mousemove (demo_move 150 120 1040) (on_mousemove (demo_move 100 100 1000) (fst demo_page, the (fst (snd demo_page)))))"
      "snd (on_mousemove (demo_move 150 120 1040) (on_mousemove (demo_move 100 100 1000) (fst demo_page, the (fst (snd demo_page)))))"
      1056 1056 "snd (snd demo_page)"]
  by (simp add: demo_defs)

text \<open>Two moves 40 ms apart, followed by a frame that comes 160 ms after the second.\<close>

theorem late_frame_counterexample:
  "now (demo_move 150 120 1040) - now (demo_move 100 100 1000) \<le> 50
   \<and> map pointerQuad (draws (snd (snd (run [MouseMove (demo_move 100 100 1000),
          MouseMove (demo_move 150 120 1040), Frame 1200 1200] demo_page)))) =
       [Some (0, 0, 0, 0), None, Some (0, 0, 0, 0), None]
   \<and> ((0, 0, 0, 0) :: vec4) \<noteq> (150, 120, 100, 100)"
  by (simp add: demo_defs)

subsection \<open>Pointer leave\<close>

text \<open>
  Claim C7.  In any page reached from a successful initialisation, a \<open>mouseleave\<close> event
  sets the pointer quad to \<open>(0, 0, 0, 0)\<close> at once, and the frame that follows passes that
  quad to the simulation pass whatever its clock readings are, also when fewer than 100
  ms have passed since the last move.
\<close>

theorem mouseleave_idle:
  assumes "gradientCanvas br0 = Some n" and "\<not> isInitialized fg0"
    and "run evs (init t0 t0' (fg0, gl0, br0)) = (fg, gl, br)"
    and "step MouseLeave (fg, gl, br) = (fg1, gl1, br1)"
    and "step (Frame t1 t2) (fg1, gl1, br1) = (fg2, gl2, br2)"
  shows "\<exists>p1. gl1 = Some p1 \<and> iMouse (fluidMaterial p1) = (0, 0, 0, 0)
       \<and> (\<exists>ds. draws br2 = draws br @ ds \<and> map pointerQuad ds = [Some (0, 0, 0, 0), None])"
proof -
  from reachable_running[OF assms(1,2,3)] obtain p where p: "gl = Some p" "0 < rafPending br"
    "listeners br = listeners br0 @ [Mousemove, Mouseleave, Resize]"
    by blast
  with assms(4) have 1: "fg1 = fg" "gl1 = Some (p\<lparr>fluidMaterial := (fluidMaterial p)\<lparr>iMouse := (0, 0, 0, 0)\<rparr>\<rparr>)"
    "br1 = br"
    by (auto simp add: on_mouseleave_def)
  with assms(5) p show ?thesis
    by (auto simp add: animate_eq)
qed

theorem mouseleave_idle_witness:
  "gradientCanvas demo_browser = Some 0 \<and> \<not> isInitialized new_FluidGradient
   \<and> (1010 :: real) - now (demo_move 150 120 1000) \<le> 100
   \<and> map pointerQuad (draws (snd (snd (run [MouseMove (demo_move 150 120 1000), MouseLeave,
          Frame 1010 1010] demo_page)))) = [Some (0, 0, 0, 0), None, Some (0, 0, 0, 0), None]"
  using mouseleave_idle[OF demo_hyps
      pair3[of "run [MouseMove (demo_move 150 120 1000)] (init 500 500 (new_FluidGradient, None, demo_browser))"]
      pair3 pair3, of 1010 1010] demo_hyps
  by (simp add: demo_defs)

text \<open>
  Claim C10.  The \<open>mouseleave\<close> handler changes the pointer-quad uniform and nothing
  else: the component's fields, among them \<open>mouseX\<close>, \<open>mouseY\<close>, \<open>prevMouseX\<close>,
  \<open>prevMouseY\<close> and \<open>lastMoveTime\<close>, are as before.  So the next \<open>mousemove\<close> records
  the position stored before the leave as the previous position, in the fields and in
  the quad.
\<close>

theorem mouseleave_keeps_fields:
  "on_mouseleave (fg, p) = (fg, p\<lparr>fluidMaterial := (fluidMaterial p)\<lparr>iMouse := (0, 0, 0, 0)\<rparr>\<rparr>)
   \<and> fst (on_mousemove e (on_mouseleave (fg, p))) =
       fg\<lparr>prevMouseX := mouseX fg, prevMouseY := mouseY fg,
          mouseX := clientX e - rect_left e,
          mouseY := rect_height e - (clientY e - rect_top e),
          lastMoveTime := now e\<rparr>
   \<and> iMouse (fluidMaterial (snd (on_mousemove e (on_mouseleave (fg, p))))) =
       (clientX e - rect_left e, rect_height e - (clientY e - rect_top e), mouseX fg, mouseY fg)"
  by (simp add: on_mouseleave_def on_mousemove_def Let_def)

theorem mouseleave_keeps_fields_witness:
  "fst (run [MouseMove (demo_move 150 120 1000), MouseLeave] demo_page) =
     fst (run [MouseMove (demo_move 150 120 1000)] demo_page)
   \<and> (\<exists>p. fst (snd (run [MouseMove (demo_move 150 120 1000), MouseLeave,
                 MouseMove (demo_move 300 200 3000)] demo_page)) = Some p
          \<and> iMouse (fluidMaterial p) = (300, 200, 150, 120))"
  using mouseleave_keeps_fields[of "fst (run [MouseMove (demo_move 150 120 1000)] demo_page)"
      "the (fst (snd (run [MouseMove (demo_move 150 120 1000)] demo_page)))" "demo_move 300 200 3000"]
  by (simp add: demo_defs)

subsection \<open>Resize\<close>

text \<open>
  Claim C3.  In any page reached from a successful initialisation, a resize to \<open>w\<close> by
  \<open>h\<close> gives both render targets the dimensions \<open>(w, h)\<close>, sets the resolution uniform
  of both materials to \<open>(w, h)\<close> and the frame counter to 0, and draws nothing.  The
  frame that follows runs both passes at resolution \<open>(w, h)\<close>, on targets and textures of
  dimensions \<open>(w, h)\<close>, with frame index 0.  The instance resizes from 800 by 600 to 1024
  by 768.
\<close>

theorem resize_reallocates:
  assumes "gradientCanvas br0 = Some n" and "\<not> isInitialized fg0"
    and "run evs (init t0 t0' (fg0, gl0, br0)) = (fg, gl, br)"
    and "step (Resized w h) (fg, gl, br) = (fg1, gl1, br1)"
    and "step (Frame t1 t2) (fg1, gl1, br1) = (fg2, gl2, br2)"
  shows "\<exists>p p1. gl = Some p \<and> gl1 = Some p1
      \<and> fluidTarget1 p1 = (w, h) \<and> fluidTarget2 p1 = (w, h)
      \<and> iResolution (fluidMaterial p1) = (w, h) \<and> iResolution (displayMaterial p1) = (w, h)
      \<and> frameCount fg1 = 0
      \<and> draws br1 = draws br
      \<and> draws br2 = draws br @
          [FluidDraw (Some (currentFluidTarget p, (w, h))) (t1 * 0.001) (w, h)
             (if t2 - lastMoveTime fg > 100 then (0, 0, 0, 0) else iMouse (fluidMaterial p))
             0 (Some (previousFluidTarget p, (w, h))),
           DisplayDraw None (t1 * 0.001) (w, h) (Some (currentFluidTarget p, (w, h)))]"
proof -
  from reachable_running[OF assms(1,2,3)] obtain p where p: "gl = Some p" "0 < rafPending br"
    "listeners br = listeners br0 @ [Mousemove, Mouseleave, Resize]"
    by blast
  let ?p1 = "p\<lparr>rendererSize := (w, h), fluidTarget1 := (w, h), fluidTarget2 := (w, h),
        fluidMaterial := (fluidMaterial p)\<lparr>iResolution := (w, h)\<rparr>,
        displayMaterial := (displayMaterial p)\<lparr>iResolution := (w, h)\<rparr>\<rparr>"
  from p assms(4) have 1: "fg1 = fg\<lparr>frameCount := 0\<rparr>" "gl1 = Some ?p1"
    "br1 = br\<lparr>innerWidth := w, innerHeight := h\<rparr>"
    by (auto simp add: on_resize_def Let_def)
  have 2: "targetSize (p\<lparr>rendererSize := (w, h), fluidTarget1 := (w, h), fluidTarget2 := (w, h)\<rparr>) t = (w, h)"
    for t by (cases t) simp_all
  from 1 p assms(5) have "draws br2 = draws br @
          [FluidDraw (Some (currentFluidTarget p, (w, h))) (t1 * 0.001) (w, h)
             (if t2 - lastMoveTime fg > 100 then (0, 0, 0, 0) else iMouse (fluidMaterial p))
             0 (Some (previousFluidTarget p, (w, h))),
           DisplayDraw None (t1 * 0.001) (w, h) (Some (currentFluidTarget p, (w, h)))]"
    by (auto simp add: animate_eq 2)
  with 1 p show ?thesis by simp
qed

theorem resize_reallocates_witness:
  "gradientCanvas demo_browser = Some 0 \<and> \<not> isInitialized new_FluidGradient
   \<and> (\<exists>p. fst (snd (run [Frame 516 516] demo_page)) = Some p
         \<and> fluidTarget1 p = (800, 600) \<and> fluidTarget2 p = (800, 600))
   \<and> (\<exists>p1. fst (snd (run [Frame 516 516, Resized 1024 768] demo_page)) = Some p1
         \<and> fluidTarget1 p1 = (1024, 768) \<and> fluidTarget2 p1 = (1024, 768)
         \<and> iResolution (fluidMaterial p1) = (1024, 768)
         \<and> iResolution (displayMaterial p1) = (1024, 768))
   \<and> frameCount (fst (run [Frame 516 516, Resized 1024 768] demo_page)) = 0
   \<and> drop 4 (draws (snd (snd (run [Frame 516 516, Resized 1024 768, Frame 532 532] demo_page)))) =
       [FluidDraw (Some (FluidTarget1, (1024, 768))) (532 * 0.001) (1024, 768) (0, 0, 0, 0) 0
          (Some (FluidTarget2, (1024, 768))),
        DisplayDraw None (532 * 0.001) (1024, 768) (Some (FluidTarget1, (1024, 768)))]"
  using resize_reallocates[OF demo_hyps
      pair3[of "run [Frame 516 516] (init 500 500 (new_FluidGradient, None, demo_browser))"]
      pair3 pair3, of 1024 768 532 532] demo_hyps
  by (simp add: demo_defs bound_def)

text \<open>
  Claim C9.  The \<open>resize\<close> handler sets the renderer's size, the dimensions of both
  render targets and the resolution uniforms of both materials to the new size and the
  frame counter to 0, and changes nothing else.  In particular the references
  \<open>currentFluidTarget\<close> and \<open>previousFluidTarget\<close> are as before: the frame that follows
  writes the target that was current before the resize and samples the one that was
  previous, with frame index 0.
\<close>

theorem resize_keeps_roles:
  "on_resize w h (fg, p) =
     (fg\<lparr>frameCount := 0\<rparr>,
      p\<lparr>rendererSize := (w, h), fluidTarget1 := (w, h), fluidTarget2 := (w, h),
        fluidMaterial := (fluidMaterial p)\<lparr>iResolution := (w, h)\<rparr>,
        displayMaterial := (displayMaterial p)\<lparr>iResolution := (w, h)\<rparr>\<rparr>)
   \<and> currentFluidTarget (snd (on_resize w h (fg, p))) = currentFluidTarget p
   \<and> previousFluidTarget (snd (on_resize w h (fg, p))) = previousFluidTarget p
   \<and> draws (snd (snd (animate t1 t2 (fst (on_resize w h (fg, p)), snd (on_resize w h (fg, p)), br)))) =
       draws br @
         [FluidDraw (Some (currentFluidTarget p, (w, h))) (t1 * 0.001) (w, h)
            (if t2 - lastMoveTime fg > 100 then (0, 0, 0, 0) else iMouse (fluidMaterial p))
            0 (Some (previousFluidTarget p, (w, h))),
          DisplayDraw None (t1 * 0.001) (w, h) (Some (currentFluidTarget p, (w, h)))]"
  by (cases "currentFluidTarget p"; cases "previousFluidTarget p";
      simp add: on_resize_def Let_def animate_eq)

theorem resize_keeps_roles_witness:
  "map passTargets (draws (snd (snd (run [Resized 1024 768, Frame 516 516] demo_page)))) =
     map passTargets (draws (snd (snd (run [Frame 516 516] demo_page))))
   \<and> map passTargets (draws (snd (snd (run [Frame 516 516] demo_page)))) =
       [(Some FluidTarget1, Some FluidTarget2), (None, Some FluidTarget1),
        (Some FluidTarget2, Some FluidTarget1), (None, Some FluidTarget2)]
   \<and> frameCount (fst (run [Resized 1024 768] demo_page)) = 0"
  using resize_keeps_roles[of 1024 768 "fst demo_page" "the (fst (snd demo_page))" 516 516
      "snd (snd demo_page)"]
  by (simp add: demo_defs bound_def)

subsection \<open>Initialisation\<close>

text \<open>
  Claim C8.  An initialisation that finds the anchor marks the component initialised,
  and it stays so through every later event; from then on a call of \<open>init\<close> returns the
  page as it is: the component, the pipeline, the anchor's children, the listeners, the
  pending callbacks and the draw calls are unchanged.
\<close>

theorem init_once:
  assumes "gradientCanvas br0 = Some n" and "\<not> isInitialized fg0"
    and "run evs (init t0 t0' (fg0, gl0, br0)) = (fg, gl, br)"
  shows "isInitialized (fst (init t0 t0' (fg0, gl0, br0)))
       \<and> isInitialized fg
       \<and> init t1 t2 (fg, gl, br) = (fg, gl, br)"
proof -
  from reachable_running[OF assms] have "isInitialized fg" by blast
  moreover from init_success[OF assms(1,2), of t0 t0' gl0]
  have "isInitialized (fst (init t0 t0' (fg0, gl0, br0)))" by auto
  ultimately show ?thesis by (simp add: init_def)
qed

theorem init_once_witness:
  "gradientCanvas demo_browser = Some 0 \<and> \<not> isInitialized new_FluidGradient
   \<and> isInitialized (fst demo_page)
   \<and> init 700 700 (run [MouseMove (demo_move 150 120 600), Frame 616 616] demo_page) =
       run [MouseMove (demo_move 150 120 600), Frame 616 616] demo_page
   \<and> gradientCanvas (snd (snd (init 700 700 (run [MouseMove (demo_move 150 120 600), Frame 616 616] demo_page)))) = Some 1
   \<and> listeners (snd (snd (init 700 700 (run [MouseMove (demo_move 150 120 600), Frame 616 616] demo_page)))) = [Mousemove, Mouseleave, Resize]
   \<and> length (draws (snd (snd (init 700 700 (run [MouseMove (demo_move 150 120 600), Frame 616 616] demo_page))))) = 4"
  using init_once[OF demo_hyps
      pair3[of "run [MouseMove (demo_move 150 120 600), Frame 616 616] (init 500 500 (new_FluidGradient, None, demo_browser))"],
      of 700 700] demo_hyps
  by (simp add: demo_defs)

text \<open>
  Claim C4, as the code has it.  When the anchor element of the gradient is absent,
  \<open>FluidGradient.init\<close> returns with the component, the pipeline and the browser as they
  were: \<open>isInitialized\<close> keeps its value, nothing is set up and nothing is logged.  When
  the preloader's element is absent, \<open>PreloaderAnimation.init\<close> logs one message and
  changes nothing else: no tween is created.  Neither raises.  The statement is about
  the two calls themselves; which other components the page goes on to initialise
  after either return is not part of it.
\<close>

theorem init_missing_anchor:
  "(gradientCanvas br = None \<longrightarrow> init t1 t2 (fg, gl, br) = (fg, gl, br))
   \<and> (preloader pa = None \<longrightarrow>
        preloader_init pa br = (pa, br\<lparr>console := console br @ [''Preloader element not found'']\<rparr>))"
  by (simp add: init_def preloader_init_def)

theorem init_missing_anchor_witness:
  "gradientCanvas (demo_browser\<lparr>gradientCanvas := None\<rparr>) = None
   \<and> init 500 500 (new_FluidGradient, None, demo_browser\<lparr>gradientCanvas := None\<rparr>) =
        (new_FluidGradient, None, demo_browser\<lparr>gradientCanvas := None\<rparr>)
   \<and> isInitialized (fst (init 500 500 (new_FluidGradient, None, demo_browser\<lparr>gradientCanvas := None\<rparr>))) = False
   \<and> preloader \<lparr>preloader = None, mainContent = Some ''mainContent'', timeline = []\<rparr> = None
   \<and> preloader_init \<lparr>preloader = None, mainContent = Some ''mainContent'', timeline = []\<rparr> demo_browser =
        (\<lparr>preloader = None, mainContent = Some ''mainContent'', timeline = []\<rparr>,
         demo_browser\<lparr>console := [''Preloader element not found'']\<rparr>)"
  using init_missing_anchor[of "demo_browser\<lparr>gradientCanvas := None\<rparr>" 500 500 new_FluidGradient None
     "\<lparr>preloader = None, mainContent = Some ''mainContent'', timeline = []\<rparr>"]
     init_missing_anchor[of demo_browser 500 500 new_FluidGradient None
     "\<lparr>preloader = None, mainContent = Some ''mainContent'', timeline = []\<rparr>"]
  by (simp add: demo_browser_def new_FluidGradient_def)

text \<open>The console is still empty after \<open>FluidGradient.init\<close> has found no anchor.\<close>

theorem init_missing_anchor_counterexample:
  "gradientCanvas (demo_browser\<lparr>gradientCanvas := None\<rparr>) = None
   \<and> console (snd (snd (init 500 500 (new_FluidGradient, None, demo_browser\<lparr>gradientCanvas := None\<rparr>)))) = []"
  by (simp add: init_def demo_browser_def new_FluidGradient_def)

end
